theory Spec2Isabelle
  imports Complex_Main "HOL-Library.Monad_Syntax" "HOL-Library.AList"
begin

section \<open>JSON values and Python dictionaries\<close>

text \<open>
  Request bodies, the dictionaries produced by \<open>.dict()\<close> and the response contents of
  \<open>main.py\<close> are JSON documents.  A Python \<open>dict\<close> with string keys is an association
  list in insertion order; \<open>map_of\<close> is the lookup \<open>d[k]\<close> and \<open>AList.update\<close> is the
  assignment \<open>d[k] = v\<close> (replace in place, or append a new key at the end).
  The program stores and returns \<open>float\<close> values and never computes with them; they are
  carried as numbers of type \<open>real\<close>.
\<close>

datatype json =
    JNull
  | JBool bool
  | JInt int
  | JFloat real
  | JStr string
  | JList "json list"
  | JDict "(string \<times> json) list"

type_synonym jdict = "(string \<times> json) list"

text \<open>A handler returns a status code with a JSON content (200 unless it builds a
  \<open>JSONResponse\<close> with another code).  When the body does not validate against the
  handler's parameter model, FastAPI answers itself and the handler does not run.\<close>

datatype response =
    Response nat json
  | RequestValidationError

subsection \<open>Reading a field of a body\<close>

fun as_str :: "json \<Rightarrow> string option" where
  "as_str (JStr v) = Some v"
| "as_str _ = None"




fun as_dict :: "json \<Rightarrow> jdict option" where
  "as_dict (JDict kv) = Some kv"
| "as_dict _ = None"

fun as_list :: "(json \<Rightarrow> 'a option) \<Rightarrow> json \<Rightarrow> 'a list option" where
  "as_list p (JList js) = those (map p js)"
| "as_list p _ = None"

text \<open>A field declared \<open>f: T\<close> is required: the body must carry the key with a value
  of type \<open>T\<close>.  A field declared \<open>f: Optional[T] = d\<close> takes the declared default \<open>d\<close>
  when the key is omitted, \<open>None\<close> when the body gives \<open>null\<close>, and the value otherwise.
  Keys that the model does not declare are ignored.  An integer is accepted where a
  \<open>float\<close> is declared; the other conversions that pydantic may apply between JSON kinds
  are left out, and a body that needs one counts as not validating.\<close>

definition required :: "jdict \<Rightarrow> string \<Rightarrow> (json \<Rightarrow> 'a option) \<Rightarrow> 'a option" where
  "required kv k p = (case map_of kv k of None \<Rightarrow> None | Some v \<Rightarrow> p v)"

definition optional ::
  "jdict \<Rightarrow> string \<Rightarrow> (json \<Rightarrow> 'a option) \<Rightarrow> 'a option \<Rightarrow> 'a option option" where
  "optional kv k p dflt =
     (case map_of kv k of
        None \<Rightarrow> Some dflt
      | Some JNull \<Rightarrow> Some None
      | Some v \<Rightarrow> map_option Some (p v))"

definition opt_json :: "('a \<Rightarrow> json) \<Rightarrow> 'a option \<Rightarrow> json" where
  "opt_json f v = (case v of None \<Rightarrow> JNull | Some w \<Rightarrow> f w)"

section \<open>The command models\<close>

record Command =
  player :: "string option"
  command :: string
  args :: "string list"

record InventoryChange =
  player :: string
  action :: string
  item :: string

definition parse_Command :: "json \<Rightarrow> Command option" where
  "parse_Command body = do {
     kv \<leftarrow> as_dict body;
     v1 \<leftarrow> optional kv ''player'' as_str None;
     v2 \<leftarrow> required kv ''command'' as_str;
     v3 \<leftarrow> required kv ''args'' (as_list as_str);
     Some \<lparr>Command.player = v1, command = v2, args = v3\<rparr>
   }"

definition Command_dict :: "Command \<Rightarrow> jdict" where
  "Command_dict cmd =
     [(''player'', opt_json JStr (Command.player cmd)),
      (''command'', JStr (command cmd)),
      (''args'', JList (map JStr (args cmd)))]"

definition parse_InventoryChange :: "json \<Rightarrow> InventoryChange option" where
  "parse_InventoryChange body = do {
     kv \<leftarrow> as_dict body;
     v1 \<leftarrow> required kv ''player'' as_str;
     v2 \<leftarrow> required kv ''action'' as_str;
     v3 \<leftarrow> required kv ''item'' as_str;
     Some \<lparr>InventoryChange.player = v1, action = v2, item = v3\<rparr>
   }"

section \<open>The snapshot models\<close>

record CoordsInfo =
  x :: real
  y :: real
  z :: real
  world :: string

record EnchantmentInfo =
  type :: string
  level :: int

record AttributeModifierInfo =
  attribute :: string
  name :: string
  amount :: real
  operation :: string
  slot :: "string option"

record ItemInfo =
  material :: string
  amount :: int
  displayName :: "string option"
  damage :: "int option"
  maxDurability :: "int option"
  durabilityPercentage :: "real option"
  enchantments :: "EnchantmentInfo list option"
  lore :: "string list option"
  customModelData :: "int option"
  attributeModifiers :: "AttributeModifierInfo list option"
  itemFlags :: "string list option"
  nbtTags :: "jdict option"

record ArmorInfo =
  helmet :: "ItemInfo option"
  chestplate :: "ItemInfo option"
  leggings :: "ItemInfo option"
  boots :: "ItemInfo option"

record PotionEffectInfo =
  type :: string
  amplifier :: int
  duration :: int
  durationSeconds :: real
  isAmbient :: bool
  hasParticles :: bool
  hasIcon :: bool
  source :: "string option"

record EntityInfo =
  name :: string
  type :: string
  distance :: real
  location :: CoordsInfo

text \<open>The field \<open>exp\<close> of \<open>StatusInfo\<close> is written \<open>exp'\<close>; its key stays \<open>exp\<close>.\<close>

record StatusInfo =
  health :: real
  maxHealth :: real
  absorption :: "real option"
  foodLevel :: int
  saturation :: real
  exhaustion :: real
  level :: int
  exp' :: real
  totalExp :: int
  gameMode :: string
  isOp :: bool
  isFlying :: bool
  allowFlight :: bool
  isSneaking :: bool
  isSprinting :: bool
  isSwimming :: bool
  isGliding :: bool
  isBlocking :: bool
  effects :: "PotionEffectInfo list"

record WorldInfo =
  name :: string
  weather :: string
  isRaining :: bool
  isThundering :: bool
  temperature :: real
  humidity :: real
  time :: int
  timeOfDay :: string

record PlayerInfo =
  name :: string
  coords :: CoordsInfo
  inventory :: "ItemInfo list option"
  armor :: "ArmorInfo option"
  offhand :: "ItemInfo option"
  enderChest :: "ItemInfo list option"
  status :: "StatusInfo option"
  world :: "WorldInfo option"
  nearbyEntities :: "EntityInfo list option"
  currentAction :: "string option"
  heldItem :: "ItemInfo option"

subsection \<open>Validation of a body against a model\<close>











subsection \<open>The dictionary of a model\<close>

text \<open>\<open>.dict()\<close> lists every declared field in declaration order, an unset optional as
  \<open>None\<close>, and turns nested models into dictionaries.\<close>

definition CoordsInfo_dict :: "CoordsInfo \<Rightarrow> jdict" where
  "CoordsInfo_dict c =
     [(''x'', JFloat (x c)), (''y'', JFloat (y c)), (''z'', JFloat (z c)),
      (''world'', JStr (CoordsInfo.world c))]"

definition EnchantmentInfo_dict :: "EnchantmentInfo \<Rightarrow> jdict" where
  "EnchantmentInfo_dict e =
     [(''type'', JStr (EnchantmentInfo.type e)), (''level'', JInt (EnchantmentInfo.level e))]"

definition AttributeModifierInfo_dict :: "AttributeModifierInfo \<Rightarrow> jdict" where
  "AttributeModifierInfo_dict m =
     [(''attribute'', JStr (attribute m)),
      (''name'', JStr (AttributeModifierInfo.name m)),
      (''amount'', JFloat (AttributeModifierInfo.amount m)),
      (''operation'', JStr (operation m)),
      (''slot'', opt_json JStr (slot m))]"

definition ItemInfo_dict :: "ItemInfo \<Rightarrow> jdict" where
  "ItemInfo_dict i =
     [(''material'', JStr (material i)),
      (''amount'', JInt (ItemInfo.amount i)),
      (''displayName'', opt_json JStr (displayName i)),
      (''damage'', opt_json JInt (damage i)),
      (''maxDurability'', opt_json JInt (maxDurability i)),
      (''durabilityPercentage'', opt_json JFloat (durabilityPercentage i)),
      (''enchantments'',
         opt_json (\<lambda>es. JList (map (\<lambda>e. JDict (EnchantmentInfo_dict e)) es)) (enchantments i)),
      (''lore'', opt_json (\<lambda>ls. JList (map JStr ls)) (lore i)),
      (''customModelData'', opt_json JInt (customModelData i)),
      (''attributeModifiers'',
         opt_json (\<lambda>ms. JList (map (\<lambda>m. JDict (AttributeModifierInfo_dict m)) ms))
           (attributeModifiers i)),
      (''itemFlags'', opt_json (\<lambda>fs. JList (map JStr fs)) (itemFlags i)),
      (''nbtTags'', opt_json JDict (nbtTags i))]"

definition ArmorInfo_dict :: "ArmorInfo \<Rightarrow> jdict" where
  "ArmorInfo_dict a =
     [(''helmet'', opt_json (\<lambda>i. JDict (ItemInfo_dict i)) (helmet a)),
      (''chestplate'', opt_json (\<lambda>i. JDict (ItemInfo_dict i)) (chestplate a)),
      (''leggings'', opt_json (\<lambda>i. JDict (ItemInfo_dict i)) (leggings a)),
      (''boots'', opt_json (\<lambda>i. JDict (ItemInfo_dict i)) (boots a))]"

definition PotionEffectInfo_dict :: "PotionEffectInfo \<Rightarrow> jdict" where
  "PotionEffectInfo_dict e =
     [(''type'', JStr (PotionEffectInfo.type e)),
      (''amplifier'', JInt (amplifier e)),
      (''duration'', JInt (duration e)),
      (''durationSeconds'', JFloat (durationSeconds e)),
      (''isAmbient'', JBool (isAmbient e)),
      (''hasParticles'', JBool (hasParticles e)),
      (''hasIcon'', JBool (hasIcon e)),
      (''source'', opt_json JStr (source e))]"

definition EntityInfo_dict :: "EntityInfo \<Rightarrow> jdict" where
  "EntityInfo_dict e =
     [(''name'', JStr (EntityInfo.name e)),
      (''type'', JStr (EntityInfo.type e)),
      (''distance'', JFloat (distance e)),
      (''location'', JDict (CoordsInfo_dict (location e)))]"

definition StatusInfo_dict :: "StatusInfo \<Rightarrow> jdict" where
  "StatusInfo_dict t =
     [(''health'', JFloat (health t)),
      (''maxHealth'', JFloat (maxHealth t)),
      (''absorption'', opt_json JFloat (absorption t)),
      (''foodLevel'', JInt (foodLevel t)),
      (''saturation'', JFloat (saturation t)),
      (''exhaustion'', JFloat (exhaustion t)),
      (''level'', JInt (StatusInfo.level t)),
      (''exp'', JFloat (exp' t)),
      (''totalExp'', JInt (totalExp t)),
      (''gameMode'', JStr (gameMode t)),
      (''isOp'', JBool (isOp t)),
      (''isFlying'', JBool (isFlying t)),
      (''allowFlight'', JBool (allowFlight t)),
      (''isSneaking'', JBool (isSneaking t)),
      (''isSprinting'', JBool (isSprinting t)),
      (''isSwimming'', JBool (isSwimming t)),
      (''isGliding'', JBool (isGliding t)),
      (''isBlocking'', JBool (isBlocking t)),
      (''effects'', JList (map (\<lambda>e. JDict (PotionEffectInfo_dict e)) (effects t)))]"

definition WorldInfo_dict :: "WorldInfo \<Rightarrow> jdict" where
  "WorldInfo_dict w =
     [(''name'', JStr (WorldInfo.name w)),
      (''weather'', JStr (weather w)),
      (''isRaining'', JBool (isRaining w)),
      (''isThundering'', JBool (isThundering w)),
      (''temperature'', JFloat (temperature w)),
      (''humidity'', JFloat (humidity w)),
      (''time'', JInt (time w)),
      (''timeOfDay'', JStr (timeOfDay w))]"

definition PlayerInfo_dict :: "PlayerInfo \<Rightarrow> jdict" where
  "PlayerInfo_dict info =
     [(''name'', JStr (PlayerInfo.name info)),
      (''coords'', JDict (CoordsInfo_dict (coords info))),
      (''inventory'',
         opt_json (\<lambda>is. JList (map (\<lambda>i. JDict (ItemInfo_dict i)) is)) (inventory info)),
      (''armor'', opt_json (\<lambda>a. JDict (ArmorInfo_dict a)) (armor info)),
      (''offhand'', opt_json (\<lambda>i. JDict (ItemInfo_dict i)) (offhand info)),
      (''enderChest'',
         opt_json (\<lambda>is. JList (map (\<lambda>i. JDict (ItemInfo_dict i)) is)) (enderChest info)),
      (''status'', opt_json (\<lambda>t. JDict (StatusInfo_dict t)) (status info)),
      (''world'', opt_json (\<lambda>w. JDict (WorldInfo_dict w)) (PlayerInfo.world info)),
      (''nearbyEntities'',
         opt_json (\<lambda>es. JList (map (\<lambda>e. JDict (EntityInfo_dict e)) es)) (nearbyEntities info)),
      (''currentAction'', opt_json JStr (currentAction info)),
      (''heldItem'', opt_json (\<lambda>i. JDict (ItemInfo_dict i)) (heldItem info))]"

section \<open>The server state and the command system\<close>

text \<open>The two module-level globals: \<open>command_queue\<close>, a list of command dictionaries,
  and \<open>player_data\<close>, a dictionary from player name to the stored snapshot dictionary.\<close>

record state =
  command_queue :: "jdict list"
  player_data :: "(string \<times> jdict) list"

text \<open>\<open>receive_command\<close> (POST /api/command) appends \<open>cmd.dict()\<close> and echoes it.  The
  \<open>print\<close> to standard output is not part of the state.\<close>

definition receive_command :: "Command \<Rightarrow> state \<Rightarrow> response \<times> state" where
  "receive_command cmd s =
     (Response 200 (JDict [(''status'', JStr ''ok''), (''queued'', JDict (Command_dict cmd))]),
      s\<lparr>command_queue := command_queue s @ [Command_dict cmd]\<rparr>)"

text \<open>\<open>get_next_command\<close> (GET /api/command): \<open>pop(0)\<close> when the list is not empty.\<close>

definition get_next_command :: "state \<Rightarrow> response \<times> state" where
  "get_next_command s =
     (if command_queue s \<noteq> []
      then (Response 200 (JDict [(''command'', JDict (hd (command_queue s)))]),
            s\<lparr>command_queue := tl (command_queue s)\<rparr>)
      else (Response 200 (JDict [(''command'', JNull)]), s))"

text \<open>\<open>change_inventory\<close> (POST /api/coords/inventory).\<close>

definition change_inventory :: "InventoryChange \<Rightarrow> state \<Rightarrow> response \<times> state" where
  "change_inventory change s =
     (if action change \<notin> set [''add'', ''remove'']
      then (Response 400 (JDict [(''error'', JStr ''Invalid action'')]), s)
      else
        (let cmd = [(''player'', JStr (InventoryChange.player change)),
                    (''command'', JStr ''inventory_edit''),
                    (''args'', JList [JStr (action change), JStr (item change)])]
         in (Response 200 (JDict [(''status'', JStr ''queued''), (''command'', JDict cmd)]),
             s\<lparr>command_queue := command_queue s @ [cmd]\<rparr>)))"

section \<open>The player data store\<close>

text \<open>\<open>update_player_info\<close> (POST /api/coords) assigns \<open>player_data[info.name] =
  info.dict()\<close>; \<open>get_all_player_info\<close> (GET /api/coords) returns the whole dictionary.
  Each handler body runs under \<open>player_data_lock\<close> and is one step of the state.\<close>

definition update_player_info :: "PlayerInfo \<Rightarrow> state \<Rightarrow> response \<times> state" where
  "update_player_info info s =
     (Response 200 (JDict [(''status'', JStr ''updated'')]),
      s\<lparr>player_data :=
          AList.update (PlayerInfo.name info) (PlayerInfo_dict info) (player_data s)\<rparr>)"


text \<open>The routes as FastAPI runs them: the body is validated against the parameter's
  model first, and the handler is called with the model only when that succeeds.\<close>

definition post_api_command :: "json \<Rightarrow> state \<Rightarrow> response \<times> state" where
  "post_api_command body s =
     (case parse_Command body of
        None \<Rightarrow> (RequestValidationError, s)
      | Some cmd \<Rightarrow> receive_command cmd s)"

definition post_api_coords_inventory :: "json \<Rightarrow> state \<Rightarrow> response \<times> state" where
  "post_api_coords_inventory body s =
     (case parse_InventoryChange body of
        None \<Rightarrow> (RequestValidationError, s)
      | Some change \<Rightarrow> change_inventory change s)"


section \<open>Sequences of calls\<close>

text \<open>A client that posts the commands of a list one after the other, and a client that
  calls GET /api/command \<open>n\<close> times and collects the responses.\<close>

definition submit_all :: "Command list \<Rightarrow> state \<Rightarrow> state" where
  "submit_all cmds s = fold (\<lambda>cmd t. snd (receive_command cmd t)) cmds s"

fun polls :: "nat \<Rightarrow> state \<Rightarrow> response list \<times> state" where
  "polls 0 s = ([], s)"
| "polls (Suc n) s =
     (let (r, t) = get_next_command s; (rs, u) = polls n t in (r # rs, u))"

section \<open>The dispatch queue\<close>

lemma submit_all_eq:
  "submit_all cmds s = s\<lparr>command_queue := command_queue s @ map Command_dict cmds\<rparr>"
  unfolding submit_all_def
  by (induction cmds arbitrary: s) (simp_all add: receive_command_def)

lemma get_next_command_Cons:
  "command_queue s = d # q \<Longrightarrow>
   get_next_command s = (Response 200 (JDict [(''command'', JDict d)]), s\<lparr>command_queue := q\<rparr>)"
  by (simp add: get_next_command_def)

lemma get_next_command_Nil:
  "command_queue s = [] \<Longrightarrow> get_next_command s = (Response 200 (JDict [(''command'', JNull)]), s)"
  by (simp add: get_next_command_def)

text \<open>Polling as many times as the queue has entries in front delivers exactly these
  entries, head first, and leaves the rest.\<close>

lemma polls_drain:
  "command_queue s = q @ q' \<Longrightarrow>
   polls (length q) s =
     (map (\<lambda>d. Response 200 (JDict [(''command'', JDict d)])) q, s\<lparr>command_queue := q'\<rparr>)"
proof (induction q arbitrary: s)
  case Nil
  then show ?case by simp
next
  case (Cons d q)
  have "get_next_command s =
      (Response 200 (JDict [(''command'', JDict d)]), s\<lparr>command_queue := q @ q'\<rparr>)"
    using Cons.prems by (simp add: get_next_command_Cons)
  moreover have "polls (length q) (s\<lparr>command_queue := q @ q'\<rparr>) =
      (map (\<lambda>d. Response 200 (JDict [(''command'', JDict d)])) q, s\<lparr>command_queue := q'\<rparr>)"
    using Cons.IH [of "s\<lparr>command_queue := q @ q'\<rparr>"] by simp
  ultimately show ?case by simp
qed

text \<open>
  Claim C1.  The queue is strictly first-in first-out.  From any state, after the commands
  \<open>A\<close>, \<open>B\<close>, \<open>C\<close> (and any later ones) have been posted in that order, the polls that
  follow deliver first what was already queued and then exactly \<open>A\<close>, \<open>B\<close>, \<open>C\<close> in that
  order; from an empty queue these are the first three polls.  The statement holds for
  all commands whatever their \<open>player\<close>: there is one global queue and no priority.
\<close>

theorem fifo_order:
  "polls (length (command_queue s) + 3) (submit_all (A # B # C # later) s) =
     (map (\<lambda>d. Response 200 (JDict [(''command'', JDict d)]))
        (command_queue s @ [Command_dict A, Command_dict B, Command_dict C]),
      s\<lparr>command_queue := map Command_dict later\<rparr>)"
proof -
  let ?q = "command_queue s @ [Command_dict A, Command_dict B, Command_dict C]"
  let ?t = "submit_all (A # B # C # later) s"
  have q: "command_queue ?t = ?q @ map Command_dict later"
    by (simp add: submit_all_eq)
  have pd: "?t\<lparr>command_queue := map Command_dict later\<rparr> =
      s\<lparr>command_queue := map Command_dict later\<rparr>"
    by (simp add: submit_all_eq)
  have len: "length ?q = length (command_queue s) + 3"
    by simp
  have "polls (length ?q) ?t =
     (map (\<lambda>d. Response 200 (JDict [(''command'', JDict d)])) ?q,
      ?t\<lparr>command_queue := map Command_dict later\<rparr>)"
    by (rule polls_drain [OF q])
  then show ?thesis
    unfolding pd len .
qed

theorem fifo_order_witness:
  "polls 3 (submit_all
       [\<lparr>Command.player = Some ''Alice'', command = ''give'', args = [''stone'', ''1'']\<rparr>,
        \<lparr>Command.player = None, command = ''flame'', args = []\<rparr>,
        \<lparr>Command.player = Some ''Bob'', command = ''give'', args = [''dirt'']\<rparr>]
       \<lparr>command_queue = [], player_data = []\<rparr>) =
     ([Response 200 (JDict [(''command'', JDict [(''player'', JStr ''Alice''),
          (''command'', JStr ''give''), (''args'', JList [JStr ''stone'', JStr ''1''])])]),
       Response 200 (JDict [(''command'', JDict [(''player'', JNull),
          (''command'', JStr ''flame''), (''args'', JList [])])]),
       Response 200 (JDict [(''command'', JDict [(''player'', JStr ''Bob''),
          (''command'', JStr ''give''), (''args'', JList [JStr ''dirt''])])])],
      \<lparr>command_queue = [], player_data = []\<rparr>)"
  using fifo_order [of "\<lparr>command_queue = [], player_data = []\<rparr>"
      "\<lparr>Command.player = Some ''Alice'', command = ''give'', args = [''stone'', ''1'']\<rparr>"
      "\<lparr>Command.player = None, command = ''flame'', args = []\<rparr>"
      "\<lparr>Command.player = Some ''Bob'', command = ''give'', args = [''dirt'']\<rparr>" "[]"]
  by (simp add: Command_dict_def opt_json_def)

text \<open>
  Claim C6.  Polling an empty queue returns at once the response \<open>{"command": null}\<close>
  with status 200 and leaves the state as it is.  This response differs from the response
  of every poll that delivers a command, in particular from the delivery of a command
  posted with an empty \<open>args\<close> list: a delivered command is always a dictionary.
\<close>

theorem poll_empty:
  assumes "command_queue s = []"
  shows "get_next_command s = (Response 200 (JDict [(''command'', JNull)]), s)
    \<and> command_queue (snd (get_next_command s)) = []
    \<and> (\<forall>t. command_queue t \<noteq> [] \<longrightarrow> fst (get_next_command t) \<noteq> fst (get_next_command s))
    \<and> fst (get_next_command (snd (receive_command \<lparr>Command.player = p, command = c, args = []\<rparr> s)))
        \<noteq> fst (get_next_command s)"
  using assms by (simp add: get_next_command_def receive_command_def)

theorem poll_empty_witness:
  "command_queue \<lparr>command_queue = [], player_data = []\<rparr> = []
   \<and> get_next_command \<lparr>command_queue = [], player_data = []\<rparr> =
       (Response 200 (JDict [(''command'', JNull)]), \<lparr>command_queue = [], player_data = []\<rparr>)
   \<and> fst (get_next_command (snd (receive_command
          \<lparr>Command.player = None, command = ''flame'', args = []\<rparr>
          \<lparr>command_queue = [], player_data = []\<rparr>)))
       \<noteq> Response 200 (JDict [(''command'', JNull)])"
  using poll_empty [of "\<lparr>command_queue = [], player_data = []\<rparr>" None "''flame''"]
  by (simp add: get_next_command_def)

text \<open>
  Claim C7.  From an empty queue, after POST /api/command with player \<open>Alice\<close>, command
  \<open>give\<close> and args \<open>["diamond_sword", "1"]\<close>, the first poll returns exactly that command
  and the second poll returns \<open>{"command": null}\<close>.
\<close>

theorem submit_then_poll:
  assumes "command_queue s = []"
  shows "polls 2 (snd (post_api_command
            (JDict [(''player'', JStr ''Alice''), (''command'', JStr ''give''),
                    (''args'', JList [JStr ''diamond_sword'', JStr ''1''])]) s)) =
     ([Response 200 (JDict [(''command'', JDict [(''player'', JStr ''Alice''),
          (''command'', JStr ''give''), (''args'', JList [JStr ''diamond_sword'', JStr ''1''])])]),
       Response 200 (JDict [(''command'', JNull)])], s)"
  using assms
  by (simp add: post_api_command_def parse_Command_def optional_def required_def
      receive_command_def get_next_command_def Command_dict_def opt_json_def numeral_2_eq_2)

theorem submit_then_poll_witness:
  "command_queue \<lparr>command_queue = [], player_data = []\<rparr> = []
   \<and> polls 2 (snd (post_api_command
            (JDict [(''player'', JStr ''Alice''), (''command'', JStr ''give''),
                    (''args'', JList [JStr ''diamond_sword'', JStr ''1''])])
            \<lparr>command_queue = [], player_data = []\<rparr>)) =
     ([Response 200 (JDict [(''command'', JDict [(''player'', JStr ''Alice''),
          (''command'', JStr ''give''), (''args'', JList [JStr ''diamond_sword'', JStr ''1''])])]),
       Response 200 (JDict [(''command'', JNull)])],
      \<lparr>command_queue = [], player_data = []\<rparr>)"
  using submit_then_poll [of "\<lparr>command_queue = [], player_data = []\<rparr>"]
  by simp

subsection \<open>Validated bodies\<close>


lemma optional_omitted: "map_of kv k = None \<Longrightarrow> optional kv k p d = Some d"
  by (simp add: optional_def)




lemma parse_Command_fields:
  assumes "parse_Command (JDict kv) = Some cmd"
  shows "optional kv ''player'' as_str None = Some (Command.player cmd)"
    and "required kv ''command'' as_str = Some (command cmd)"
    and "required kv ''args'' (as_list as_str) = Some (args cmd)"
  using assms by (auto simp: parse_Command_def bind_eq_Some_conv)




text \<open>
  Claim C8.  A command posted without the key \<open>player\<close>, or with \<open>"player": null\<close>,
  validates to a command whose \<open>player\<close> is \<open>None\<close>; the dictionary appended to the queue and echoed carries
  \<open>"player": null\<close>, neither a name nor the empty string, and the poll that reaches it
  returns that same dictionary.
\<close>

theorem absent_target_preserved:
  assumes "map_of kv ''player'' = None \<or> map_of kv ''player'' = Some JNull"
    and "parse_Command (JDict kv) = Some cmd"
  shows "Command.player cmd = None
    \<and> Command_dict cmd =
        [(''player'', JNull), (''command'', JStr (command cmd)),
         (''args'', JList (map JStr (args cmd)))]
    \<and> post_api_command (JDict kv) s =
        (Response 200 (JDict [(''status'', JStr ''ok''), (''queued'', JDict (Command_dict cmd))]),
         s\<lparr>command_queue := command_queue s @ [Command_dict cmd]\<rparr>)
    \<and> polls (length (command_queue s) + 1) (snd (post_api_command (JDict kv) s)) =
        (map (\<lambda>d. Response 200 (JDict [(''command'', JDict d)]))
           (command_queue s @ [Command_dict cmd]),
         s\<lparr>command_queue := []\<rparr>)"
proof -
  have p: "Command.player cmd = None"
    using parse_Command_fields(1) [OF assms(2)] assms(1) by (auto simp: optional_def)
  have d: "Command_dict cmd =
        [(''player'', JNull), (''command'', JStr (command cmd)),
         (''args'', JList (map JStr (args cmd)))]"
    by (simp add: Command_dict_def p opt_json_def)
  have post: "post_api_command (JDict kv) s =
        (Response 200 (JDict [(''status'', JStr ''ok''), (''queued'', JDict (Command_dict cmd))]),
         s\<lparr>command_queue := command_queue s @ [Command_dict cmd]\<rparr>)"
    by (simp add: post_api_command_def assms(2) receive_command_def)
  let ?q = "command_queue s @ [Command_dict cmd]"
  have "polls (length ?q) (s\<lparr>command_queue := ?q\<rparr>) =
      (map (\<lambda>d. Response 200 (JDict [(''command'', JDict d)])) ?q,
       s\<lparr>command_queue := ?q\<rparr>\<lparr>command_queue := []\<rparr>)"
    by (rule polls_drain) simp
  then have "polls (length (command_queue s) + 1) (snd (post_api_command (JDict kv) s)) =
        (map (\<lambda>d. Response 200 (JDict [(''command'', JDict d)])) ?q, s\<lparr>command_queue := []\<rparr>)"
    by (simp add: post)
  with p d post show ?thesis by (simp only: simp_thms)
qed

theorem absent_target_preserved_witness:
  "map_of [(''command'', JStr ''flame''), (''args'', JList [JStr ''upgrade''])] ''player'' = None
   \<and> parse_Command (JDict [(''command'', JStr ''flame''), (''args'', JList [JStr ''upgrade''])]) =
       Some \<lparr>Command.player = None, command = ''flame'', args = [''upgrade'']\<rparr>
   \<and> polls 1 (snd (post_api_command
         (JDict [(''command'', JStr ''flame''), (''args'', JList [JStr ''upgrade''])])
         \<lparr>command_queue = [], player_data = []\<rparr>)) =
       ([Response 200 (JDict [(''command'', JDict [(''player'', JNull),
           (''command'', JStr ''flame''), (''args'', JList [JStr ''upgrade''])])])],
        \<lparr>command_queue = [], player_data = []\<rparr>)"
  using absent_target_preserved [of
      "[(''command'', JStr ''flame''), (''args'', JList [JStr ''upgrade''])]"
      "\<lparr>Command.player = None, command = ''flame'', args = [''upgrade'']\<rparr>"
      "\<lparr>command_queue = [], player_data = []\<rparr>"]
  by (simp add: parse_Command_def optional_def required_def Command_dict_def opt_json_def
      post_api_command_def receive_command_def get_next_command_def)

text \<open>
  Claim C9.  \<open>change_inventory\<close> with an action other than \<open>add\<close> and \<open>remove\<close> answers
  400 and leaves the state, hence the queue, unchanged; with \<open>add\<close> or \<open>remove\<close> it
  appends exactly one dictionary with the given player, the command \<open>inventory_edit\<close> and
  the args \<open>[action, item]\<close>.
\<close>

theorem change_inventory_atomic:
  "(action c \<notin> {''add'', ''remove''} \<longrightarrow>
      change_inventory c s = (Response 400 (JDict [(''error'', JStr ''Invalid action'')]), s))
   \<and> (action c \<in> {''add'', ''remove''} \<longrightarrow>
      change_inventory c s =
        (Response 200 (JDict [(''status'', JStr ''queued''),
           (''command'', JDict [(''player'', JStr (InventoryChange.player c)),
              (''command'', JStr ''inventory_edit''),
              (''args'', JList [JStr (action c), JStr (item c)])])]),
         s\<lparr>command_queue := command_queue s @
            [[(''player'', JStr (InventoryChange.player c)),
              (''command'', JStr ''inventory_edit''),
              (''args'', JList [JStr (action c), JStr (item c)])]]\<rparr>))"
  by (auto simp: change_inventory_def Let_def)

theorem change_inventory_atomic_witness:
  "action \<lparr>InventoryChange.player = ''Bob'', action = ''drop'', item = ''stone''\<rparr>
      \<notin> {''add'', ''remove''}
   \<and> change_inventory \<lparr>InventoryChange.player = ''Bob'', action = ''drop'', item = ''stone''\<rparr>
        \<lparr>command_queue = [], player_data = []\<rparr> =
      (Response 400 (JDict [(''error'', JStr ''Invalid action'')]),
       \<lparr>command_queue = [], player_data = []\<rparr>)
   \<and> action \<lparr>InventoryChange.player = ''Bob'', action = ''add'', item = ''stone''\<rparr>
      \<in> {''add'', ''remove''}
   \<and> snd (change_inventory \<lparr>InventoryChange.player = ''Bob'', action = ''add'', item = ''stone''\<rparr>
        \<lparr>command_queue = [], player_data = []\<rparr>) =
      \<lparr>command_queue = [[(''player'', JStr ''Bob''), (''command'', JStr ''inventory_edit''),
          (''args'', JList [JStr ''add'', JStr ''stone''])]], player_data = []\<rparr>"
  using change_inventory_atomic [of
      "\<lparr>InventoryChange.player = ''Bob'', action = ''drop'', item = ''stone''\<rparr>"
      "\<lparr>command_queue = [], player_data = []\<rparr>"]
    change_inventory_atomic [of
      "\<lparr>InventoryChange.player = ''Bob'', action = ''add'', item = ''stone''\<rparr>"
      "\<lparr>command_queue = [], player_data = []\<rparr>"]
  by simp

section \<open>The state store\<close>








text \<open>
  Claim C10.  \<open>update_player_info\<close> changes the entry of \<open>info.name\<close> only: every other
  key maps to the snapshot it mapped to before, and the command queue is untouched.
\<close>

theorem update_player_info_frame:
  assumes "k \<noteq> PlayerInfo.name info"
  shows "map_of (player_data (snd (update_player_info info s))) k = map_of (player_data s) k
    \<and> command_queue (snd (update_player_info info s)) = command_queue s"
  using assms by (simp add: update_player_info_def update_conv')

theorem update_player_info_frame_witness:
  "''Alice'' \<noteq> PlayerInfo.name
     \<lparr>PlayerInfo.name = ''Bob'', coords = \<lparr>x = 5, y = 70, z = 1, world = ''nether''\<rparr>,
      inventory = Some [], armor = None,
      offhand = None, enderChest = Some [], status = None, world = None,
      nearbyEntities = Some [], currentAction = Some ''idle'', heldItem = None\<rparr>
   \<and> map_of (player_data (snd (update_player_info
     \<lparr>PlayerInfo.name = ''Bob'', coords = \<lparr>x = 5, y = 70, z = 1, world = ''nether''\<rparr>,
      inventory = Some [], armor = None,
      offhand = None, enderChest = Some [], status = None, world = None,
      nearbyEntities = Some [], currentAction = Some ''idle'', heldItem = None\<rparr>
     \<lparr>command_queue = [[(''command'', JStr ''flame''), (''args'', JList [])]],
      player_data = [(''Alice'', [(''name'', JStr ''Alice'')]), (''Bob'', [])]\<rparr>))) ''Alice''
     = Some [(''name'', JStr ''Alice'')]
   \<and> command_queue (snd (update_player_info
     \<lparr>PlayerInfo.name = ''Bob'', coords = \<lparr>x = 5, y = 70, z = 1, world = ''nether''\<rparr>,
      inventory = Some [], armor = None,
      offhand = None, enderChest = Some [], status = None, world = None,
      nearbyEntities = Some [], currentAction = Some ''idle'', heldItem = None\<rparr>
     \<lparr>command_queue = [[(''command'', JStr ''flame''), (''args'', JList [])]],
      player_data = [(''Alice'', [(''name'', JStr ''Alice'')]), (''Bob'', [])]\<rparr>))
     = [[(''command'', JStr ''flame''), (''args'', JList [])]]"
  using update_player_info_frame [of "''Alice''"
     "\<lparr>PlayerInfo.name = ''Bob'', coords = \<lparr>x = 5, y = 70, z = 1, world = ''nether''\<rparr>,
      inventory = Some [], armor = None,
      offhand = None, enderChest = Some [], status = None, world = None,
      nearbyEntities = Some [], currentAction = Some ''idle'', heldItem = None\<rparr>"
     "\<lparr>command_queue = [[(''command'', JStr ''flame''), (''args'', JList [])]],
      player_data = [(''Alice'', [(''name'', JStr ''Alice'')]), (''Bob'', [])]\<rparr>"]
  by simp

subsection \<open>Omitted optional fields\<close>












end
